theory Spec2Isabelle
  imports Main
begin

section \<open>The notebooks as documents\<close>

text \<open>
  The source file holds two Jupyter notebooks (nbformat 4), one after the other: the
  machine-learning notebook (lines 1 to 357) and the schedulers notebook (from line 358 on).
  A notebook is its list of cells. A code cell is modelled by the lines of its
  \<^verbatim>\<open>source\<close> field, character for character, without the line terminators; every
  code cell of the file has \<^verbatim>\<open>execution_count\<close> null, no outputs and empty metadata, so
  nothing else is kept. A markdown cell is prose: only its place in the cell sequence is
  modelled, not its text.
\<close>

datatype cell = Markdown | Code "string list"

definition notebook_machine_learning :: "cell list" where
  \<open>notebook_machine_learning = [
    Markdown,
    Markdown,
    Markdown,
    Markdown,
    Markdown,
    Code [
      ''from sklearn.datasets import make_classification'',
      '''',
      ''X, y = make_classification(n_samples=10000, n_features=4, random_state=0)'',
      ''X[:8]''],
    Code [''y[:8]''],
    Markdown,
    Code [''from sklearn.svm import SVC''],
    Markdown,
    Code [
      ''estimator = SVC(random_state=0)'',
      ''estimator.fit(X, y)''],
    Markdown,
    Code [''estimator.support_vectors_[:4]''],
    Markdown,
    Code [''estimator.score(X, y)''],
    Markdown,
    Markdown,
    Code [
      ''estimator = SVC(C=0.00001, shrinking=False, random_state=0)'',
      ''estimator.fit(X, y)'',
      ''estimator.support_vectors_[:4]''],
    Code [''estimator.score(X, y)''],
    Markdown,
    Code [''from sklearn.model_selection import GridSearchCV''],
    Code [
      ''%%time'',
      ''estimator = SVC(gamma='auto', random_state=0, probability=True)'',
      ''param_grid = {'',
      ''    'C': [0.001, 10.0],'',
      ''    'kernel': ['rbf', 'poly'],'',
      ''}'',
      '''',
      ''grid_search = GridSearchCV(estimator, param_grid, verbose=2, cv=2)'',
      ''grid_search.fit(X, y)''],
    Markdown,
    Code [
      ''%%time'',
      ''grid_search = GridSearchCV(estimator, param_grid, verbose=2, cv=2, n_jobs=-1)'',
      ''grid_search.fit(X, y)''],
    Markdown,
    Code [
      ''from pycon_utils import make_cluster'',
      ''import dask_ml.joblib'',
      ''from dask.distributed import Client'',
      '''',
      ''from sklearn.externals import joblib''],
    Code [
      ''cluster = make_cluster()'',
      ''client = Client(cluster)''],
    Code [''client''],
    Code [
      ''client = Client()'',
      ''client''],
    Code [
      ''%%time'',
      '''',
      ''with joblib.parallel_backend('dask', scatter=[X, y]):'',
      ''    grid_search.fit(X, y)''],
    Code [''client.cluster.__class__''],
    Markdown,
    Code [
      ''param_grid = {'',
      ''    'C': [0.001, 0.1, 1.0, 2.5, 5, 10.0],'',
      ''    'kernel': ['rbf', 'poly', 'linear'],'',
      ''    'shrinking': [True, False],'',
      ''}'',
      '''',
      ''grid_search = GridSearchCV(estimator, param_grid, verbose=2, cv=5, n_jobs=-1)'',
      '''',
      ''with joblib.parallel_backend("dask", scatter=[X, y]):'',
      ''    grid_search.fit(X, y)'']]\<close>

definition notebook_schedulers :: "cell list" where
  \<open>notebook_schedulers = [
    Markdown,
    Code [
      ''import concurrent.futures'',
      '''',
      ''def fib(n):'',
      ''    """Compute the `n`th fibonnaci number.'',
      ''    '',
      ''    This is a deliberatly slow, CPU intensive implemenation.'',
      ''    """'',
      ''    if n < 2:'',
      ''        return n'',
      ''    return fib(n - 2) + fib(n - 1)''],
    Code [''%time fib(34)''],
    Markdown,
    Code [
      ''results = map(fib, [34, 34, 34, 34])'',
      ''%time _ = list(results)''],
    Markdown,
    Code [
      ''thread_pool = concurrent.futures.ThreadPoolExecutor(max_workers=4)'',
      '''',
      ''results = thread_pool.map(fib, [34, 34, 34, 34])'',
      ''%time _ = list(results)''],
    Markdown,
    Markdown,
    Code [
      ''# Your solution'',
      ''''],
    Code [''%load solutions/04-schedulers-fib-process.py''],
    Markdown,
    Markdown,
    Markdown,
    Markdown,
    Code [
      ''import dask '',
      ''import dask.multiprocessing'',
      ''import dask.dataframe as dd'',
      ''import pandas as pd'',
      ''from glob import glob'',
      ''import os''],
    Code [
      ''df = dd.read_csv(os.path.join('data', 'nycflights', '*.csv'),'',
      ''                 parse_dates={'Date': [0, 1, 2]},'',
      ''                 dtype={'TailNum': object,'',
      ''                        'CRSElapsedTime': float,'',
      ''                        'Cancelled': bool})'',
      '''',
      ''# Maximum non-cancelled delay'',
      ''largest_delay = df[~df.Cancelled].DepDelay.max()''],
    Code [''%time _ = largest_delay.compute()  # this uses threads by default''],
    Code [''%time _ = largest_delay.compute(get=dask.multiprocessing.get)  # this uses processes''],
    Code [''%time _ = largest_delay.compute(get=dask.get)  # This uses a single thread''],
    Markdown,
    Code [
      ''from multiprocessing import cpu_count'',
      ''cpu_count()''],
    Markdown,
    Markdown,
    Markdown,
    Markdown,
    Markdown,
    Code [''%prun -l 30 _ = largest_delay.compute(get=dask.threaded.get)''],
    Code [''%prun -l 30 _ = largest_delay.compute(get=dask.get)''],
    Markdown,
    Code [
      ''from dask.diagnostics import Profiler, ResourceProfiler, visualize'',
      '''',
      ''with Profiler() as p, ResourceProfiler(0.25) as r:'',
      ''    largest_delay.compute()'',
      ''    '',
      ''visualize([r, p]);''],
    Markdown,
    Markdown,
    Markdown,
    Markdown,
    Code [
      ''from dask.distributed import Client'',
      '''',
      ''# Setup a local cluster.'',
      ''# By default this sets up 1 worker per core'',
      ''client = Client()'',
      ''client''],
    Markdown,
    Code [''%time _ = largest_delay.compute(get=client.get)''],
    Markdown,
    Markdown,
    Code [''%time _ = largest_delay.compute()  # This used to use threads by default, now it uses dask.distributed''],
    Markdown,
    Markdown,
    Code [
      ''# Number of flights'',
      ''_ = len(df)''],
    Code [
      ''# Number of non-cancelled flights'',
      ''_ = len(df[~df.Cancelled])''],
    Code [
      ''# Number of non-cancelled flights per-airport'',
      ''_ = df[~df.Cancelled].groupby('Origin').Origin.count().compute()''],
    Code [
      ''# Average departure delay from each airport?'',
      ''_ = df[~df.Cancelled].groupby('Origin').DepDelay.mean().compute()''],
    Code [
      ''# Average departure delay per day-of-week'',
      ''_ = df.groupby(df.Date.dt.dayofweek).DepDelay.mean().compute()''],
    Markdown,
    Markdown]\<close>


section \<open>Reading the cells\<close>

fun is_code :: "cell \<Rightarrow> bool" where
  "is_code Markdown = False"
| "is_code (Code ls) = True"











text \<open>
  The cell pattern. \<open>explained_within k d cs\<close> walks the cells; \<open>d\<close> counts the code cells
  met since the last markdown cell (\<open>None\<close> before the first markdown cell). It holds when
  every code cell has a markdown cell among the \<open>k\<close> cells before it. With \<open>k = 1\<close> this is
  the strict pattern: each code cell comes right after a markdown cell.
\<close>

fun explained_within :: "nat \<Rightarrow> nat option \<Rightarrow> cell list \<Rightarrow> bool" where
  "explained_within k d [] = True"
| "explained_within k d (Markdown # cs) = explained_within k (Some 0) cs"
| "explained_within k d (Code ls # cs) =
     (case d of None \<Rightarrow> False
      | Some n \<Rightarrow> n < k \<and> explained_within k (Some (Suc n)) cs)"

section \<open>The function \<open>fib\<close>\<close>

text \<open>
  The one function the notebooks define (schedulers notebook, second cell):
  \<^verbatim>\<open>
  def fib(n):
      if n < 2:
          return n
      return fib(n - 2) + fib(n - 1)
  \<close>
  Python integers are unbounded, so \<open>n\<close> is an \<open>int\<close>. The interpreter's limit on the
  depth of the call stack is a setting of the run, not of the function, and is not modelled.
\<close>

function fib :: "int \<Rightarrow> int" where
  "fib n = (if n < 2 then n else fib (n - 2) + fib (n - 1))"
  by pat_completeness auto
termination
  by (relation "measure nat") auto

declare fib.simps [simp del]

text \<open>
  The same body with no termination argument behind it: a call that does not return has
  the value \<open>None\<close>.
\<close>

partial_function (option) fib_run :: "int \<Rightarrow> int option" where
  "fib_run n =
     (if n < 2 then Some n
      else Option.bind (fib_run (n - 2)) (\<lambda>a.
           Option.bind (fib_run (n - 1)) (\<lambda>b. Some (a + b))))"

text \<open>The arguments of the recursive calls that the body makes on \<open>n\<close>, and the call relation.\<close>

definition fib_args :: "int \<Rightarrow> int list" where
  "fib_args n = (if n < 2 then [] else [n - 2, n - 1])"

definition fib_calls :: "(int \<times> int) set" where
  "fib_calls = {(m, n). m \<in> set (fib_args n)}"

text \<open>
  The reference the docstring names (``the \<open>n\<close>th fibonacci number''): the sequence that
  starts 0, 1 and continues with the sum of the two numbers before.
\<close>

fun fibonacci :: "nat \<Rightarrow> nat" where
  "fibonacci 0 = 0"
| "fibonacci (Suc 0) = 1"
| "fibonacci (Suc (Suc k)) = fibonacci k + fibonacci (Suc k)"

section \<open>Facts about \<open>fib\<close>\<close>

lemma fib_base: "n < 2 \<Longrightarrow> fib n = n"
  by (simp add: fib.simps)

lemma fib_step: "2 \<le> n \<Longrightarrow> fib n = fib (n - 2) + fib (n - 1)"
  by (subst fib.simps) simp

lemma fib_of_nat: "fib (int k) = int (fibonacci k)"
proof (induction k rule: fibonacci.induct)
  case 1
  show ?case by (simp add: fib_base)
next
  case 2
  show ?case by (simp add: fib_base)
next
  case (3 k)
  have "fib (int (Suc (Suc k))) = fib (int (Suc (Suc k)) - 2) + fib (int (Suc (Suc k)) - 1)"
    by (rule fib_step) simp
  also have "int (Suc (Suc k)) - 2 = int k" by simp
  also have "int (Suc (Suc k)) - 1 = int (Suc k)" by simp
  finally show ?case using 3 by simp
qed

text \<open>Every call returns: the version with no termination argument agrees with \<open>fib\<close>.\<close>

lemma fib_run_returns: "fib_run n = Some (fib n)"
proof (induction n rule: fib.induct)
  case (1 n)
  show ?case
  proof (cases "n < 2")
    case True
    then show ?thesis by (simp add: fib_run.simps fib_base)
  next
    case False
    with 1 show ?thesis
      by (subst fib_run.simps) (simp add: fib_step)
  qed
qed

lemma fib_args_smaller: "m \<in> set (fib_args n) \<Longrightarrow> nat m < nat n"
  by (auto simp: fib_args_def split: if_splits)

lemma wf_fib_calls: "wf fib_calls"
proof (rule wf_subset)
  show "wf (measure nat)" by simp
  show "fib_calls \<subseteq> measure nat"
    by (auto simp: fib_calls_def dest: fib_args_smaller)
qed

text \<open>
  Claim C2. On every natural number \<open>fib\<close> returns the Fibonacci number of that index:
  \<open>fib 0 = 0\<close>, \<open>fib 1 = 1\<close>, for every \<open>n\<close> from 2 on \<open>fib n = fib (n - 2) + fib (n - 1)\<close>,
  and \<open>fib k\<close> is the \<open>k\<close>th number of the reference sequence.
\<close>

theorem fib_nth_fibonacci:
  "fib 0 = 0 \<and> fib 1 = 1 \<and> (2 \<le> n \<longrightarrow> fib n = fib (n - 2) + fib (n - 1))
   \<and> fib (int k) = int (fibonacci k)"
  by (simp add: fib_base fib_step fib_of_nat)

theorem fib_nth_fibonacci_witness:
  "(2::int) \<le> 10 \<and> fib 10 = fib 8 + fib 9 \<and> fib 10 = 55 \<and> fibonacci 10 = 55"
proof -
  have f: "fibonacci 10 = 55" by code_simp
  have "fib (int 10) = int (fibonacci 10)" and "fib 10 = fib (10 - 2) + fib (10 - 1)"
    using fib_nth_fibonacci [of 10 10] by simp_all
  with f show ?thesis by simp
qed

text \<open>
  Claim C9. \<open>fib\<close> terminates on every integer: below 2 it makes no recursive call and
  returns at once; from 2 on its two recursive calls are on \<open>n - 2\<close> and \<open>n - 1\<close>, both
  strictly smaller in the measure \<open>nat\<close>; the call relation is well-founded; and the call
  returns a value on every input.
\<close>

theorem fib_terminates:
  "(n < 2 \<longrightarrow> fib_args n = [] \<and> fib_run n = Some n)
   \<and> (2 \<le> n \<longrightarrow> fib_args n = [n - 2, n - 1] \<and> nat (n - 2) < nat n \<and> nat (n - 1) < nat n)
   \<and> wf fib_calls
   \<and> (\<exists>r. fib_run n = Some r)"
  by (auto simp: fib_args_def fib_run_returns fib_base wf_fib_calls)

theorem fib_terminates_witness:
  "(2::int) \<le> 5 \<and> fib_args 5 = [3, 4] \<and> nat 3 < nat (5::int) \<and> nat 4 < nat (5::int)
   \<and> (\<exists>r. fib_run 5 = Some r) \<and> fib_args 1 = [] \<and> fib_run 1 = Some 1"
  using fib_terminates [of 5] fib_terminates [of 1] by simp

text \<open>
  Claim C10. On every integer below 2, negative ones included, \<open>fib\<close> returns its argument:
  the call returns (it is not \<open>None\<close>) and there is no error branch, so \<open>fib (-7) = -7\<close>.
\<close>

theorem fib_below_two: "n < 2 \<Longrightarrow> fib n = n \<and> fib_run n = Some n"
  by (simp add: fib_base fib_run_returns)

theorem fib_below_two_witness:
  "(-7::int) < 2 \<and> fib (-7) = -7 \<and> fib_run (-7) = Some (-7)"
  using fib_below_two [of "-7"] by simp

section \<open>Facts about the notebooks\<close>













text \<open>The cell pattern, said with positions in the cell list.\<close>

lemma explained_within_iff:
  "explained_within k d cs \<longleftrightarrow>
     (\<forall>i<length cs. is_code (cs ! i) \<longrightarrow>
        (\<exists>j<i. \<not> is_code (cs ! j) \<and> i - j \<le> k)
        \<or> (\<exists>n. d = Some n \<and> n + i < k \<and> (\<forall>j<i. is_code (cs ! j))))"
  (is "_ \<longleftrightarrow> ?P k d cs")
proof (induction k d cs rule: explained_within.induct)
  case (1 k d)
  then show ?case by simp
next
  case (2 k d cs)
  have "?P k d (Markdown # cs) \<longleftrightarrow> ?P k (Some 0) cs"
  proof -
    have step: "(Suc i \<le> k \<or> (\<exists>j<i. \<not> is_code (cs ! j) \<and> i - j \<le> k))
        \<longleftrightarrow> ((\<exists>j<i. \<not> is_code (cs ! j) \<and> i - j \<le> k) \<or> (i < k \<and> (\<forall>j<i. is_code (cs ! j))))"
      for i
    proof (cases "\<forall>j<i. is_code (cs ! j)")
      case True
      then show ?thesis by auto
    next
      case False
      then obtain j where j: "j < i" "\<not> is_code (cs ! j)" by blast
      have "i - j \<le> k" if "Suc i \<le> k" using that by simp
      with j False show ?thesis by auto
    qed
    have "?P k d (Markdown # cs) \<longleftrightarrow>
        (\<forall>i<length cs. is_code (cs ! i) \<longrightarrow>
           Suc i \<le> k \<or> (\<exists>j<i. \<not> is_code (cs ! j) \<and> i - j \<le> k))"
      by (simp add: All_less_Suc2 Ex_less_Suc2)
    also have "\<dots> \<longleftrightarrow> ?P k (Some 0) cs"
      using step by auto
    finally show ?thesis .
  qed
  with 2 show ?case by simp
next
  case (3 k d ls cs)
  show ?case
  proof (cases d)
    case None
    then show ?thesis by (simp add: All_less_Suc2)
  next
    case (Some n)
    have "?P k (Some n) (Code ls # cs) \<longleftrightarrow> n < k \<and> ?P k (Some (Suc n)) cs"
      by (simp add: All_less_Suc2 Ex_less_Suc2)
    with 3 Some show ?thesis by simp
  qed
qed

lemma explained_within_positions:
  "explained_within k None cs \<longleftrightarrow>
     (\<forall>i<length cs. is_code (cs ! i) \<longrightarrow> (\<exists>j<i. \<not> is_code (cs ! j) \<and> i - j \<le> k))"
  by (simp add: explained_within_iff)

lemma strict_pattern_positions:
  "explained_within 1 None cs \<longleftrightarrow>
     (\<forall>i<length cs. is_code (cs ! i) \<longrightarrow> 0 < i \<and> \<not> is_code (cs ! (i - 1)))"
proof -
  have "(\<exists>j<i. \<not> is_code (cs ! j) \<and> i - j \<le> 1) \<longleftrightarrow> 0 < i \<and> \<not> is_code (cs ! (i - 1))" for i
  proof
    assume "\<exists>j<i. \<not> is_code (cs ! j) \<and> i - j \<le> 1"
    then obtain j where "j < i" "\<not> is_code (cs ! j)" "i - j \<le> 1" by blast
    moreover from this have "j = i - 1" by simp
    ultimately show "0 < i \<and> \<not> is_code (cs ! (i - 1))" by auto
  next
    assume "0 < i \<and> \<not> is_code (cs ! (i - 1))"
    then show "\<exists>j<i. \<not> is_code (cs ! j) \<and> i - j \<le> 1"
      by (intro exI [of _ "i - 1"]) auto
  qed
  then show ?thesis
    by (simp add: explained_within_positions)
qed

lemma runs_machine_learning: "explained_within 6 None notebook_machine_learning"
  by (simp add: notebook_machine_learning_def)

lemma runs_schedulers: "explained_within 6 None notebook_schedulers"
  by (simp add: notebook_schedulers_def)




text \<open>
  Claim C7, as stated (every code cell comes right after a markdown cell) fails: in the
  machine-learning notebook the cells at positions 5 and 6, counted from 0, are both code
  cells, so the second one comes right after a code cell.
\<close>

theorem code_cell_after_code_cell:
  \<open>is_code (notebook_machine_learning ! 5) \<and> is_code (notebook_machine_learning ! 6)
   \<and> \<not> (\<forall>i<length notebook_machine_learning. is_code (notebook_machine_learning ! i) \<longrightarrow>
          0 < i \<and> \<not> is_code (notebook_machine_learning ! (i - 1)))\<close>
proof -
  have "\<not> explained_within 1 None notebook_machine_learning"
    by (simp add: notebook_machine_learning_def)
  then have "\<not> (\<forall>i<length notebook_machine_learning. is_code (notebook_machine_learning ! i) \<longrightarrow>
          0 < i \<and> \<not> is_code (notebook_machine_learning ! (i - 1)))"
    unfolding strict_pattern_positions .
  moreover have "is_code (notebook_machine_learning ! 5) \<and> is_code (notebook_machine_learning ! 6)"
    by (simp add: notebook_machine_learning_def)
  ultimately show ?thesis by blast
qed

text \<open>
  Claim C7, amended. In every notebook each code cell has a markdown explanation cell
  before it, though not always right before it: the markdown cell is among the six cells
  before the code cell, since a markdown cell is followed by a run of up to six code
  cells.
\<close>

theorem code_cells_follow_markdown_in_runs:
  assumes "nb = notebook_machine_learning \<or> nb = notebook_schedulers"
    and "i < length nb" and "is_code (nb ! i)"
  shows "\<exists>j<i. \<not> is_code (nb ! j) \<and> i - j \<le> 6"
proof -
  from assms(1) have "explained_within 6 None nb"
    using runs_machine_learning runs_schedulers by blast
  with assms(2,3) show ?thesis
    by (simp add: explained_within_positions)
qed

text \<open>
  The bound is reached: the machine-learning notebook has a markdown cell at position 24
  and code cells at positions 25 to 30.
\<close>

theorem code_cells_follow_markdown_in_runs_witness:
  \<open>30 < length notebook_machine_learning
   \<and> \<not> is_code (notebook_machine_learning ! 24)
   \<and> is_code (notebook_machine_learning ! 25) \<and> is_code (notebook_machine_learning ! 26)
   \<and> is_code (notebook_machine_learning ! 27) \<and> is_code (notebook_machine_learning ! 28)
   \<and> is_code (notebook_machine_learning ! 29) \<and> is_code (notebook_machine_learning ! 30)
   \<and> (\<exists>j<30. \<not> is_code (notebook_machine_learning ! j) \<and> 30 - j \<le> 6)\<close>
proof -
  have len: "30 < length notebook_machine_learning"
    by (simp add: notebook_machine_learning_def)
  have cells: "\<not> is_code (notebook_machine_learning ! 24)
   \<and> is_code (notebook_machine_learning ! 25) \<and> is_code (notebook_machine_learning ! 26)
   \<and> is_code (notebook_machine_learning ! 27) \<and> is_code (notebook_machine_learning ! 28)
   \<and> is_code (notebook_machine_learning ! 29) \<and> is_code (notebook_machine_learning ! 30)"
    by (simp add: notebook_machine_learning_def)
  then have "is_code (notebook_machine_learning ! 30)" by blast
  with len have "\<exists>j<30. \<not> is_code (notebook_machine_learning ! j) \<and> 30 - j \<le> 6"
    by (intro code_cells_follow_markdown_in_runs) simp_all
  with len cells show ?thesis by blast
qed

end
